theory Spec2Isabelle
  imports Main "HOL-Library.Multiset"
begin

section \<open>Content store\<close>

text \<open>
  The bundled JSON document \<^verbatim>\<open>fiqhContent\<close> has a list of chapters, each with a list of
  sections. The field \<^verbatim>\<open>notes\<close> of a section is optional; \<^verbatim>\<open>order\<close> is an integer.
  Field names carry a prefix because both objects have \<^verbatim>\<open>id\<close>, \<^verbatim>\<open>title\<close> and
  \<^verbatim>\<open>subtitle\<close>.
\<close>

record Section =
  sec_id :: string
  sec_title :: string
  sec_subtitle :: string
  sec_content :: "string list"
  sec_notes :: "string list option"

record Chapter =
  ch_id :: string
  ch_title :: string
  ch_subtitle :: string
  ch_icon :: string
  ch_order :: int
  ch_sections :: "Section list"

section \<open>Sorting the chapters\<close>

text \<open>
  \<^verbatim>\<open>[...fiqhContent.chapters].sort((a, b) => a.order - b.order)\<close>: a copy of the array,
  sorted by a comparator. \<^verbatim>\<open>Array.prototype.sort\<close> is stable; it is modelled by a stable
  insertion sort that asks the comparator for every decision: an element moves in front of
  the already sorted rest only as far as the comparator result is not positive.
\<close>

fun insert_by :: "('a \<Rightarrow> 'a \<Rightarrow> int) \<Rightarrow> 'a \<Rightarrow> 'a list \<Rightarrow> 'a list" where
  "insert_by cmp x [] = [x]"
| "insert_by cmp x (y # ys) =
     (if cmp x y \<le> 0 then x # y # ys else y # insert_by cmp x ys)"

definition array_sort :: "('a \<Rightarrow> 'a \<Rightarrow> int) \<Rightarrow> 'a list \<Rightarrow> 'a list" where
  "array_sort cmp xs = foldr (insert_by cmp) xs []"

definition sortedChapters :: "Chapter list \<Rightarrow> Chapter list" where
  "sortedChapters chapters = array_sort (\<lambda>a b. ch_order a - ch_order b) chapters"

section \<open>Navigation state\<close>

text \<open>
  The three \<^verbatim>\<open>useState\<close> cells of \<^verbatim>\<open>TajweedApp\<close>. \<^verbatim>\<open>null\<close> is \<open>None\<close>. The result of
  the hook \<^verbatim>\<open>useIsMobile\<close> is a parameter of everything that reads it.
\<close>

record nav_state =
  selectedChapter :: "string option"
  selectedSection :: "string option"
  sidebarOpen :: bool

definition initialState :: nav_state where
  "initialState = \<lparr>selectedChapter = None, selectedSection = None, sidebarOpen = True\<rparr>"

text \<open>
  JavaScript truthiness of a \<^verbatim>\<open>string | null\<close>: \<^verbatim>\<open>null\<close> and the empty string are falsy.
\<close>

definition truthy :: "string option \<Rightarrow> bool" where
  "truthy v = (case v of None \<Rightarrow> False | Some str \<Rightarrow> str \<noteq> [])"

definition sidebarShouldBeOpen :: "bool \<Rightarrow> nav_state \<Rightarrow> bool" where
  "sidebarShouldBeOpen isMobile s = (\<not> isMobile \<or> \<not> truthy (selectedChapter s))"

definition isSidebarOpen :: "bool \<Rightarrow> nav_state \<Rightarrow> bool" where
  "isSidebarOpen isMobile s =
     (if sidebarOpen s then sidebarShouldBeOpen isMobile s else False)"

definition setSidebarOpen :: "bool \<Rightarrow> nav_state \<Rightarrow> nav_state" where
  "setSidebarOpen b s = s\<lparr>sidebarOpen := b\<rparr>"

definition handleChapterClick :: "bool \<Rightarrow> string \<Rightarrow> nav_state \<Rightarrow> nav_state" where
  "handleChapterClick isMobile chapterId s =
     (let s1 = s\<lparr>selectedChapter := Some chapterId\<rparr>;
          s2 = s1\<lparr>selectedSection := None\<rparr>
      in if isMobile then setSidebarOpen False s2 else s2)"

definition handleSectionClick :: "string \<Rightarrow> nav_state \<Rightarrow> nav_state" where
  "handleSectionClick sectionId s = s\<lparr>selectedSection := Some sectionId\<rparr>"

definition handleBackToChapters :: "nav_state \<Rightarrow> nav_state" where
  "handleBackToChapters s = s\<lparr>selectedSection := None\<rparr>"

text \<open>
  The menu button of the header: \<^verbatim>\<open>setSidebarOpen(!isSidebarOpen)\<close>. It negates the
  effective visibility, not the stored flag.
\<close>

definition toggleSidebar :: "bool \<Rightarrow> nav_state \<Rightarrow> nav_state" where
  "toggleSidebar isMobile s = setSidebarOpen (\<not> isSidebarOpen isMobile s) s"

section \<open>Resolving the view\<close>

text \<open>
  \<^verbatim>\<open>fiqhContent.chapters.find((ch) => ch.id === selectedChapter)\<close>: the first chapter with
  that id, \<^verbatim>\<open>undefined\<close> when there is none; no id is \<^verbatim>\<open>=== null\<close>.
\<close>

definition selectedChapterData :: "Chapter list \<Rightarrow> nav_state \<Rightarrow> Chapter option" where
  "selectedChapterData chapters s =
     (case selectedChapter s of
        None \<Rightarrow> None
      | Some i \<Rightarrow> find (\<lambda>ch. ch_id ch = i) chapters)"

text \<open>
  \<^verbatim>\<open>selectedChapterData?.sections.find((sec) => sec.id === selectedSection)\<close>: the optional
  chain gives \<^verbatim>\<open>undefined\<close> when there is no chapter.
\<close>

definition selectedSectionData :: "Chapter list \<Rightarrow> nav_state \<Rightarrow> Section option" where
  "selectedSectionData chapters s =
     (case selectedChapterData chapters s of
        None \<Rightarrow> None
      | Some ch \<Rightarrow>
          (case selectedSection s of
             None \<Rightarrow> None
           | Some j \<Rightarrow> find (\<lambda>sec. sec_id sec = j) (ch_sections ch)))"

text \<open>
  What the main display area shows: the home page with all chapters in sorted order, the
  sections of one chapter, the content of one section, or nothing (the \<^verbatim>\<open>null\<close> at the
  end of the conditional chain).
\<close>

datatype view =
    ChapterList "Chapter list"
  | SectionList Chapter
  | SectionDetail Chapter Section
  | Blank

text \<open>
  The chain \<^verbatim>\<open>!selectedChapter ? home : selectedChapterData && !selectedSection ? sections
  : selectedSectionData && selectedChapterData ? detail : null\<close>, in the source's order.
\<close>

definition mainDisplayArea :: "Chapter list \<Rightarrow> nav_state \<Rightarrow> view" where
  "mainDisplayArea chapters s =
     (if \<not> truthy (selectedChapter s) then ChapterList (sortedChapters chapters)
      else case (selectedChapterData chapters s, truthy (selectedSection s)) of
             (Some ch, False) \<Rightarrow> SectionList ch
           | _ \<Rightarrow>
               (case (selectedSectionData chapters s, selectedChapterData chapters s) of
                  (Some sec, Some ch) \<Rightarrow> SectionDetail ch sec
                | _ \<Rightarrow> Blank))"

section \<open>Rendering a section\<close>




section \<open>Icons\<close>

text \<open>
  \<^verbatim>\<open>iconMap\<close> is an object literal with nine own properties, read with
  \<^verbatim>\<open>iconMap[chapter.icon]\<close>. A property read on an object finds its own properties first,
  then those it inherits from \<^verbatim>\<open>Object.prototype\<close>, and is \<^verbatim>\<open>undefined\<close> otherwise.
\<close>

datatype glyph =
    BookOpen | MapPin | Sparkles | LetterN | LetterM | Clock | Pause | LetterA | Scale

datatype icon_value = Component glyph | Inherited string | Undefined

definition iconTable :: "(string \<times> glyph) list" where
  "iconTable =
     [(''BookOpen'', BookOpen), (''MapPin'', MapPin), (''Sparkles'', Sparkles),
      (''N'', LetterN), (''M'', LetterM), (''Clock'', Clock), (''Pause'', Pause),
      (''A'', LetterA), (''Scale'', Scale)]"

text \<open>The property names every object inherits from \<^verbatim>\<open>Object.prototype\<close>.\<close>

definition objectPrototypeKeys :: "string list" where
  "objectPrototypeKeys =
     [''constructor'', ''hasOwnProperty'', ''isPrototypeOf'', ''propertyIsEnumerable'',
      ''toLocaleString'', ''toString'', ''valueOf'', ''__proto__'',
      ''__defineGetter__'', ''__defineSetter__'', ''__lookupGetter__'',
      ''__lookupSetter__'']"

definition iconMap :: "string \<Rightarrow> icon_value" where
  "iconMap key =
     (case map_of iconTable key of
        Some g \<Rightarrow> Component g
      | None \<Rightarrow> if key \<in> set objectPrototypeKeys then Inherited key else Undefined)"

text \<open>
  \<^verbatim>\<open>{Icon && <Icon className=... />}\<close>: nothing is rendered for \<^verbatim>\<open>undefined\<close>, and
  a glyph of the table is rendered. An inherited value is truthy as well and is used as
  the component of the element, but it is no icon component: no glyph comes out of it,
  and rendering fails on it (it throws for \<^verbatim>\<open>constructor\<close> and \<^verbatim>\<open>__proto__\<close>, for
  instance). That outcome is the error value.
\<close>

datatype render_error = NotAnIconComponent string

definition renderIcon :: "string \<Rightarrow> render_error + glyph option" where
  "renderIcon key =
     (case iconMap key of
        Undefined \<Rightarrow> Inr None
      | Component g \<Rightarrow> Inr (Some g)
      | Inherited name \<Rightarrow> Inl (NotAnIconComponent name))"

section \<open>Sequences of user actions\<close>

text \<open>
  The actions the page offers. Each one happens under the value \<^verbatim>\<open>isMobile\<close> has at that
  moment, so a run is a list of pairs.
\<close>

datatype nav_op =
    SelectChapter string
  | SelectSection string
  | BackToSections
  | ToggleSidebar
  | SetSidebarVisible bool

fun apply_op :: "bool \<Rightarrow> nav_op \<Rightarrow> nav_state \<Rightarrow> nav_state" where
  "apply_op isMobile (SelectChapter chapterId) s = handleChapterClick isMobile chapterId s"
| "apply_op isMobile (SelectSection sectionId) s = handleSectionClick sectionId s"
| "apply_op isMobile BackToSections s = handleBackToChapters s"
| "apply_op isMobile ToggleSidebar s = toggleSidebar isMobile s"
| "apply_op isMobile (SetSidebarVisible b) s = setSidebarOpen b s"

fun run_ops :: "(bool \<times> nav_op) list \<Rightarrow> nav_state \<Rightarrow> nav_state" where
  "run_ops [] s = s"
| "run_ops ((isMobile, opn) # rest) s = run_ops rest (apply_op isMobile opn s)"

text \<open>
  The precondition the specification gives to section selection: a chapter is selected.
  The handlers do not check it; a run is admissible when every section selection in it
  happens in a state that has a chapter.
\<close>

fun op_pre :: "nav_op \<Rightarrow> nav_state \<Rightarrow> bool" where
  "op_pre (SelectSection sectionId) s = (selectedChapter s \<noteq> None)"
| "op_pre opn s = True"

fun admissible :: "(bool \<times> nav_op) list \<Rightarrow> nav_state \<Rightarrow> bool" where
  "admissible [] s = True"
| "admissible ((isMobile, opn) # rest) s =
     (op_pre opn s \<and> admissible rest (apply_op isMobile opn s))"

definition navInvariant :: "nav_state \<Rightarrow> bool" where
  "navInvariant s = (selectedSection s \<noteq> None \<longrightarrow> selectedChapter s \<noteq> None)"

section \<open>Sample content\<close>

text \<open>
  A small content store in the shape of the bundled document, used to run the definitions
  on concrete input: chapter \<open>c1\<close> (order 2) with one section, chapter \<open>c2\<close> (order 1)
  without sections and with an icon name that is not in \<^verbatim>\<open>iconMap\<close>.
\<close>

definition sec1 :: Section where
  "sec1 = \<lparr>sec_id = ''s1'', sec_title = ''Makharij'', sec_subtitle = ''Articulation'',
           sec_content = [''p1'', ''p2''], sec_notes = Some [''n1'', ''n2'']\<rparr>"

definition chap1 :: Chapter where
  "chap1 = \<lparr>ch_id = ''c1'', ch_title = ''One'', ch_subtitle = ''one'',
            ch_icon = ''BookOpen'', ch_order = 2, ch_sections = [sec1]\<rparr>"

definition chap2 :: Chapter where
  "chap2 = \<lparr>ch_id = ''c2'', ch_title = ''Two'', ch_subtitle = ''two'',
            ch_icon = ''Star'', ch_order = 1, ch_sections = []\<rparr>"

text \<open>
  Content whose ids are empty strings: chapter \<open>chap0\<close> has the empty string as its id
  and the section \<open>s1\<close>; chapter \<open>c3\<close> has one section, whose id is the empty string.
\<close>

definition chap0 :: Chapter where
  "chap0 = \<lparr>ch_id = [], ch_title = ''Zero'', ch_subtitle = ''zero'',
            ch_icon = ''Clock'', ch_order = 0, ch_sections = [sec1]\<rparr>"

definition sec0 :: Section where
  "sec0 = \<lparr>sec_id = [], sec_title = ''Sifaat'', sec_subtitle = ''Attributes'',
           sec_content = [''p3''], sec_notes = None\<rparr>"

definition chap3 :: Chapter where
  "chap3 = \<lparr>ch_id = ''c3'', ch_title = ''Three'', ch_subtitle = ''three'',
            ch_icon = ''Pause'', ch_order = 3, ch_sections = [sec0]\<rparr>"

section \<open>Theorems\<close>

subsection \<open>Sorting\<close>

lemma insert_by_insort_key:
  "insert_by (\<lambda>a b. f a - f b) x ys = insort_key f x ys"
  by (induction ys) simp_all

lemma array_sort_sort_key: "array_sort (\<lambda>a b. f a - f b) xs = sort_key f xs"
  by (induction xs) (simp_all add: array_sort_def insert_by_insort_key)

lemma sortedChapters_sort_key: "sortedChapters chapters = sort_key ch_order chapters"
  by (simp add: sortedChapters_def array_sort_sort_key)

text \<open>
  C4. The chapter sequence produced for display is sorted ascending by \<^verbatim>\<open>order\<close>, it has
  the chapters of the input (each as often as there), and for every value of \<^verbatim>\<open>order\<close>
  the chapters with that value appear in the order they have in the input (the sort is
  stable). The sequence is a function of the collection alone, so it is the same at every
  render.
\<close>

theorem sortedChapters_sorted_stable:
  "sorted (map ch_order (sortedChapters chapters))
   \<and> mset (sortedChapters chapters) = mset chapters
   \<and> (\<forall>k. filter (\<lambda>c. ch_order c = k) (sortedChapters chapters)
          = filter (\<lambda>c. ch_order c = k) chapters)"
proof -
  have a: "sorted (map ch_order (sortedChapters chapters))"
    by (simp add: sortedChapters_sort_key)
  have b: "mset (sortedChapters chapters) = mset chapters"
    by (simp add: sortedChapters_sort_key)
  have c: "filter (\<lambda>c. ch_order c = k) (sortedChapters chapters)
         = filter (\<lambda>c. ch_order c = k) chapters" for k
    by (simp add: sortedChapters_sort_key sort_key_stable)
  from a b c show ?thesis by blast
qed


lemma sortedChapters_sample: "sortedChapters [chap1, chap2] = [chap2, chap1]"
  by (simp add: sortedChapters_def array_sort_def chap1_def chap2_def)

subsection \<open>Transitions\<close>

text \<open>
  C5. For every state and every chapter id, \<^verbatim>\<open>handleChapterClick\<close> (the specification's
  selectChapter) sets the selected chapter to that id and the selected section to none;
  on a narrow viewport it sets the stored sidebar flag to false, on a wide one it leaves
  the flag as it was.
\<close>

theorem handleChapterClick_effect:
  "selectedChapter (handleChapterClick isMobile chapterId s) = Some chapterId
   \<and> selectedSection (handleChapterClick isMobile chapterId s) = None
   \<and> sidebarOpen (handleChapterClick True chapterId s) = False
   \<and> sidebarOpen (handleChapterClick False chapterId s) = sidebarOpen s"
  by (simp add: handleChapterClick_def setSidebarOpen_def Let_def)

text \<open>
  C7. For every state, \<^verbatim>\<open>handleBackToChapters\<close> (the specification's backToSections)
  sets the selected section to none and leaves the selected chapter and the sidebar flag
  unchanged; when the selected section is already none it changes nothing at all.
\<close>

theorem handleBackToChapters_frame:
  "selectedSection (handleBackToChapters s) = None
   \<and> selectedChapter (handleBackToChapters s) = selectedChapter s
   \<and> sidebarOpen (handleBackToChapters s) = sidebarOpen s
   \<and> (selectedSection s = None \<longrightarrow> handleBackToChapters s = s)"
  by (simp add: handleBackToChapters_def)

theorem handleBackToChapters_frame_witness:
  "selectedSection (handleChapterClick False ''c1'' initialState) = None
   \<and> handleBackToChapters (handleChapterClick False ''c1'' initialState)
       = handleChapterClick False ''c1'' initialState"
  using handleBackToChapters_frame [of "handleChapterClick False ''c1'' initialState"]
  by (simp add: handleChapterClick_def initialState_def Let_def)

subsection \<open>The selection invariant\<close>

lemma navInvariant_apply_op:
  "navInvariant s \<Longrightarrow> op_pre opn s \<Longrightarrow> navInvariant (apply_op isMobile opn s)"
  by (cases opn)
     (auto simp: navInvariant_def handleChapterClick_def handleSectionClick_def
        handleBackToChapters_def toggleSidebar_def setSidebarOpen_def Let_def)

lemma navInvariant_run_ops_from:
  "navInvariant s \<Longrightarrow> admissible ops s \<Longrightarrow> navInvariant (run_ops ops s)"
proof (induction ops arbitrary: s)
  case Nil
  then show ?case by simp
next
  case (Cons a ops)
  obtain isMobile opn where a: "a = (isMobile, opn)" by (cases a)
  from Cons.prems have "navInvariant (apply_op isMobile opn s)"
    by (simp add: a navInvariant_apply_op)
  with Cons.prems Cons.IH show ?case by (simp add: a)
qed

text \<open>
  Without the precondition the invariant is lost: the handler of a section click does not
  look at the selected chapter.
\<close>

lemma navInvariant_needs_precondition:
  "\<not> navInvariant (run_ops [(False, SelectSection ''s1'')] initialState)"
  by (simp add: navInvariant_def handleSectionClick_def initialState_def)

text \<open>
  C6. From the initial state (no chapter, no section), after every finite sequence of
  chapter selections, section selections, back steps, sidebar toggles and sidebar
  settings, under any viewport at each step, in which every section selection happens
  while a chapter is selected, a selected section implies a selected chapter.
\<close>

theorem navInvariant_reachable:
  "admissible ops initialState \<Longrightarrow> navInvariant (run_ops ops initialState)"
  by (rule navInvariant_run_ops_from) (simp_all add: navInvariant_def initialState_def)

theorem navInvariant_reachable_witness:
  "admissible [(True, SelectChapter ''c1''), (True, ToggleSidebar), (False, SelectSection ''s1''),
      (False, SetSidebarVisible True), (True, BackToSections), (True, SelectSection ''s1'')]
     initialState
   \<and> navInvariant (run_ops [(True, SelectChapter ''c1''), (True, ToggleSidebar),
      (False, SelectSection ''s1''), (False, SetSidebarVisible True), (True, BackToSections),
      (True, SelectSection ''s1'')] initialState)
   \<and> selectedSection (run_ops [(True, SelectChapter ''c1''), (True, ToggleSidebar),
      (False, SelectSection ''s1''), (False, SetSidebarVisible True), (True, BackToSections),
      (True, SelectSection ''s1'')] initialState) = Some ''s1''"
  using navInvariant_reachable [of "[(True, SelectChapter ''c1''), (True, ToggleSidebar),
      (False, SelectSection ''s1''), (False, SetSidebarVisible True), (True, BackToSections),
      (True, SelectSection ''s1'')]"]
  by (simp add: initialState_def handleChapterClick_def handleSectionClick_def
      handleBackToChapters_def toggleSidebar_def setSidebarOpen_def Let_def
      isSidebarOpen_def sidebarShouldBeOpen_def truthy_def navInvariant_def)

subsection \<open>Stale selections\<close>

text \<open>
  C1, as the code has it. For every content store and every state whose selected chapter
  id is set and is not the id of any chapter, the main display area is computed without
  an error, but there is no fallback to the chapter list: for a non-empty id nothing is
  rendered (the final \<^verbatim>\<open>null\<close> of the chain). Only the empty string, which is falsy,
  gives the chapter list with the full sorted chapter sequence.
\<close>

theorem stale_chapter_view:
  assumes "selectedChapter s = Some i" and "selectedChapterData chapters s = None"
  shows "mainDisplayArea chapters s =
           (if i = [] then ChapterList (sortedChapters chapters) else Blank)"
  using assms
  by (simp add: mainDisplayArea_def truthy_def selectedSectionData_def)

theorem stale_chapter_view_witness:
  "selectedChapter
     \<lparr>selectedChapter = Some ''c1'', selectedSection = Some ''s1'', sidebarOpen = True\<rparr>
     = Some ''c1''
   \<and> selectedChapterData [chap2]
     \<lparr>selectedChapter = Some ''c1'', selectedSection = Some ''s1'', sidebarOpen = True\<rparr>
     = None
   \<and> mainDisplayArea [chap2]
     \<lparr>selectedChapter = Some ''c1'', selectedSection = Some ''s1'', sidebarOpen = True\<rparr>
     = Blank"
  using stale_chapter_view [of
      "\<lparr>selectedChapter = Some ''c1'', selectedSection = Some ''s1'', sidebarOpen = True\<rparr>"
      "''c1''" "[chap2]"]
  by (simp add: selectedChapterData_def chap2_def)

text \<open>
  C1 as stated fails: with chapter \<open>c2\<close> alone in the store and \<open>c1\<close> selected, the
  lookup finds nothing and the main display area is blank, not the chapter list.
\<close>

theorem stale_chapter_counterexample:
  "selectedChapterData [chap2]
     \<lparr>selectedChapter = Some ''c1'', selectedSection = None, sidebarOpen = True\<rparr> = None
   \<and> mainDisplayArea [chap2]
     \<lparr>selectedChapter = Some ''c1'', selectedSection = None, sidebarOpen = True\<rparr>
     \<noteq> ChapterList (sortedChapters [chap2])
   \<and> mainDisplayArea [chap2]
     \<lparr>selectedChapter = Some ''c1'', selectedSection = None, sidebarOpen = True\<rparr> = Blank"
  by (simp add: mainDisplayArea_def selectedChapterData_def selectedSectionData_def
      truthy_def chap2_def)

text \<open>
  C2, as the code has it. For every state whose selected chapter id is found in the store
  and whose selected section id is set and is not the id of any section of that chapter,
  the main display area is computed without an error, but there is no fallback to the
  section list when both ids are non-empty: nothing is rendered. The section list of the
  chapter is shown only for the empty section id, and the chapter list for the empty
  chapter id.
\<close>

theorem stale_section_view:
  assumes "selectedChapter s = Some i" and "selectedChapterData chapters s = Some ch"
    and "selectedSection s = Some j" and "selectedSectionData chapters s = None"
  shows "mainDisplayArea chapters s =
           (if i = [] then ChapterList (sortedChapters chapters)
            else if j = [] then SectionList ch else Blank)"
  using assms by (simp add: mainDisplayArea_def truthy_def)

theorem stale_section_view_witness:
  "selectedChapterData [chap2, chap1]
     \<lparr>selectedChapter = Some ''c1'', selectedSection = Some ''s9'', sidebarOpen = False\<rparr>
     = Some chap1
   \<and> selectedSectionData [chap2, chap1]
     \<lparr>selectedChapter = Some ''c1'', selectedSection = Some ''s9'', sidebarOpen = False\<rparr>
     = None
   \<and> mainDisplayArea [chap2, chap1]
     \<lparr>selectedChapter = Some ''c1'', selectedSection = Some ''s9'', sidebarOpen = False\<rparr>
     = Blank"
  using stale_section_view [of
      "\<lparr>selectedChapter = Some ''c1'', selectedSection = Some ''s9'', sidebarOpen = False\<rparr>"
      "''c1''" "[chap2, chap1]" chap1 "''s9''"]
  by (simp add: selectedChapterData_def selectedSectionData_def chap1_def chap2_def sec1_def)

text \<open>
  C2 as stated fails: chapter \<open>c1\<close> is found, it has no section \<open>s9\<close>, and the main
  display area is blank, not the section list of \<open>c1\<close>.
\<close>

theorem stale_section_counterexample:
  "selectedChapterData [chap2, chap1]
     \<lparr>selectedChapter = Some ''c1'', selectedSection = Some ''s9'', sidebarOpen = True\<rparr>
     = Some chap1
   \<and> selectedSectionData [chap2, chap1]
     \<lparr>selectedChapter = Some ''c1'', selectedSection = Some ''s9'', sidebarOpen = True\<rparr>
     = None
   \<and> mainDisplayArea [chap2, chap1]
     \<lparr>selectedChapter = Some ''c1'', selectedSection = Some ''s9'', sidebarOpen = True\<rparr>
     \<noteq> SectionList chap1
   \<and> mainDisplayArea [chap2, chap1]
     \<lparr>selectedChapter = Some ''c1'', selectedSection = Some ''s9'', sidebarOpen = True\<rparr>
     = Blank"
  by (simp add: mainDisplayArea_def selectedChapterData_def selectedSectionData_def
      truthy_def chap1_def chap2_def sec1_def)

subsection \<open>Re-entering a section\<close>






subsection \<open>Notes\<close>




subsection \<open>Icons\<close>

lemma iconMap_unknown:
  assumes "key \<notin> {''BookOpen'', ''MapPin'', ''Sparkles'', ''N'', ''M'', ''Clock'', ''Pause'',
             ''A'', ''Scale''}"
    and "key \<notin> set objectPrototypeKeys"
  shows "iconMap key = Undefined"
proof -
  from assms(1) have "map_of iconTable key = None"
    by (simp add: iconTable_def)
  with assms(2) show ?thesis by (simp add: iconMap_def)
qed

text \<open>
  A name inherited from \<^verbatim>\<open>Object.prototype\<close> is found by the lookup, and what is found
  is no icon.
\<close>

lemma renderIcon_inherited:
  "iconMap ''constructor'' = Inherited ''constructor''
   \<and> renderIcon ''constructor'' = Inl (NotAnIconComponent ''constructor'')"
  by (simp add: iconMap_def renderIcon_def iconTable_def objectPrototypeKeys_def)

text \<open>
  C3, as the code has it. There is no fallback glyph. Each of the nine names of the table
  (BookOpen, MapPin, Sparkles, N, M, Clock, Pause, A, Scale) is looked up to its own
  glyph, and that glyph is rendered. A name that is neither one of the nine nor inherited
  from \<^verbatim>\<open>Object.prototype\<close> is looked up to \<^verbatim>\<open>undefined\<close>, and then the chapter is
  rendered without an icon and without an error.
\<close>

theorem iconMap_lookup:
  "map iconMap [''BookOpen'', ''MapPin'', ''Sparkles'', ''N'', ''M'', ''Clock'', ''Pause'',
       ''A'', ''Scale'']
     = [Component BookOpen, Component MapPin, Component Sparkles, Component LetterN,
        Component LetterM, Component Clock, Component Pause, Component LetterA,
        Component Scale]
   \<and> map renderIcon [''BookOpen'', ''MapPin'', ''Sparkles'', ''N'', ''M'', ''Clock'', ''Pause'',
       ''A'', ''Scale'']
     = [Inr (Some BookOpen), Inr (Some MapPin), Inr (Some Sparkles), Inr (Some LetterN),
        Inr (Some LetterM), Inr (Some Clock), Inr (Some Pause), Inr (Some LetterA),
        Inr (Some Scale)]
   \<and> (key \<notin> {''BookOpen'', ''MapPin'', ''Sparkles'', ''N'', ''M'', ''Clock'', ''Pause'',
              ''A'', ''Scale''}
        \<and> key \<notin> set objectPrototypeKeys \<longrightarrow>
        iconMap key = Undefined \<and> renderIcon key = Inr None)"
proof -
  have own: "map iconMap [''BookOpen'', ''MapPin'', ''Sparkles'', ''N'', ''M'', ''Clock'',
       ''Pause'', ''A'', ''Scale'']
     = [Component BookOpen, Component MapPin, Component Sparkles, Component LetterN,
        Component LetterM, Component Clock, Component Pause, Component LetterA,
        Component Scale]"
    by (simp add: iconMap_def iconTable_def)
  have shown: "map renderIcon [''BookOpen'', ''MapPin'', ''Sparkles'', ''N'', ''M'', ''Clock'',
       ''Pause'', ''A'', ''Scale'']
     = [Inr (Some BookOpen), Inr (Some MapPin), Inr (Some Sparkles), Inr (Some LetterN),
        Inr (Some LetterM), Inr (Some Clock), Inr (Some Pause), Inr (Some LetterA),
        Inr (Some Scale)]"
    by (simp add: renderIcon_def iconMap_def iconTable_def)
  have none: "key \<notin> {''BookOpen'', ''MapPin'', ''Sparkles'', ''N'', ''M'', ''Clock'', ''Pause'',
              ''A'', ''Scale''}
        \<and> key \<notin> set objectPrototypeKeys \<longrightarrow>
        iconMap key = Undefined \<and> renderIcon key = Inr None"
  proof
    assume a: "key \<notin> {''BookOpen'', ''MapPin'', ''Sparkles'', ''N'', ''M'', ''Clock'', ''Pause'',
              ''A'', ''Scale''}
        \<and> key \<notin> set objectPrototypeKeys"
    have "iconMap key = Undefined"
      by (rule iconMap_unknown [OF conjunct1 [OF a] conjunct2 [OF a]])
    then show "iconMap key = Undefined \<and> renderIcon key = Inr None"
      by (simp add: renderIcon_def)
  qed
  show ?thesis by (rule conjI [OF own conjI [OF shown none]])
qed

theorem iconMap_lookup_witness:
  "''Star'' \<notin> {''BookOpen'', ''MapPin'', ''Sparkles'', ''N'', ''M'', ''Clock'', ''Pause'',
              ''A'', ''Scale''}
   \<and> ''Star'' \<notin> set objectPrototypeKeys
   \<and> iconMap ''Star'' = Undefined \<and> renderIcon ''Star'' = Inr None"
  using iconMap_lookup [of "''Star''"]
  by (simp add: objectPrototypeKeys_def)

text \<open>
  C3 as stated fails: the icon name \<open>Star\<close> (that of chapter \<open>c2\<close> of the sample) is
  not in the table; the lookup gives \<^verbatim>\<open>undefined\<close> and no glyph is rendered.
\<close>

theorem iconMap_unknown_counterexample:
  "iconMap (ch_icon chap2) = Undefined \<and> renderIcon (ch_icon chap2) = Inr None"
  by (simp add: iconMap_def renderIcon_def iconTable_def objectPrototypeKeys_def chap2_def)

subsection \<open>The sidebar on a narrow viewport\<close>

lemma toggleSidebar_selection:
  "selectedChapter ((toggleSidebar isMobile ^^ n) s) = selectedChapter s"
  by (induction n) (simp_all add: toggleSidebar_def setSidebarOpen_def)

lemma mobile_hidden:
  "truthy (selectedChapter s) \<Longrightarrow> \<not> isSidebarOpen True s"
  by (simp add: isSidebarOpen_def sidebarShouldBeOpen_def)

text \<open>
  The test of the code for a selected chapter is the truthiness of the cell. A chapter
  whose id is the empty string does not pass it: after a click on that chapter the page
  still shows the home page, and on a narrow viewport the menu button opens the sidebar.
\<close>

lemma mobile_sidebar_empty_id:
  "\<not> truthy (selectedChapter (handleChapterClick True [] initialState))
   \<and> mainDisplayArea [chap0, chap3] (toggleSidebar True (handleChapterClick True [] initialState))
       = ChapterList [chap0, chap3]
   \<and> isSidebarOpen True (toggleSidebar True (handleChapterClick True [] initialState))"
  by (simp add: toggleSidebar_def handleChapterClick_def initialState_def setSidebarOpen_def
      isSidebarOpen_def sidebarShouldBeOpen_def truthy_def Let_def mainDisplayArea_def
      sortedChapters_def array_sort_def chap0_def chap3_def)

text \<open>
  C10. On a narrow viewport, for every state in which a chapter is selected (the test of
  the code at the sidebar: \<^verbatim>\<open>selectedChapter\<close> is truthy), the effective sidebar
  visibility \<^verbatim>\<open>isSidebarOpen\<close> is false whatever the stored flag is set to, and it stays
  false after any number of clicks on the menu button.
\<close>

theorem mobile_sidebar_hidden:
  assumes "truthy (selectedChapter s)"
  shows "\<not> isSidebarOpen True (setSidebarOpen b s)
         \<and> \<not> isSidebarOpen True ((toggleSidebar True ^^ n) s)"
proof -
  have "truthy (selectedChapter (setSidebarOpen b s))"
    using assms by (simp add: setSidebarOpen_def)
  moreover have "truthy (selectedChapter ((toggleSidebar True ^^ n) s))"
    using assms by (simp add: toggleSidebar_selection)
  ultimately show ?thesis by (simp add: mobile_hidden)
qed

theorem mobile_sidebar_hidden_witness:
  "truthy (selectedChapter (handleChapterClick True ''c1'' initialState))
   \<and> \<not> isSidebarOpen True (setSidebarOpen True (handleChapterClick True ''c1'' initialState))
   \<and> \<not> isSidebarOpen True
        ((toggleSidebar True ^^ 3) (handleChapterClick True ''c1'' initialState))"
  using mobile_sidebar_hidden [of "handleChapterClick True ''c1'' initialState" True 3]
  by (simp add: handleChapterClick_def initialState_def Let_def setSidebarOpen_def truthy_def)

end
